theory Spec2Isabelle
  imports Main
begin

section \<open>JavaScript values\<close>

text \<open>
  A JavaScript string is a sequence of UTF-16 code units; a code unit is modelled as a
  natural number, and an ASCII literal of the source is written \<open>ascii ''...''\<close>.
  Opaque identifiers that the code only compares for equality (task ids, provider names,
  session ids, exception messages) are plain \<open>string\<close>s.
\<close>

type_synonym js_string = "nat list"

definition ascii :: "string \<Rightarrow> js_string" where
  "ascii s = map of_char s"

text \<open>
  The values a caller can pass for \<open>videoUrl\<close> and \<open>actionType\<close> (the HTTP route hands
  over whatever the JSON body holds). Numbers are restricted to integers; \<open>JObject\<close> stands
  for every object, array and function.
\<close>

datatype js_value =
    JUndefined
  | JNull
  | JBoolean bool
  | JNumber int
  | JString js_string
  | JObject

text \<open>ToBoolean, as used by \<open>!v\<close> and \<open>v || d\<close>.\<close>

fun truthy :: "js_value \<Rightarrow> bool" where
  "truthy JUndefined = False"
| "truthy JNull = False"
| "truthy (JBoolean b) = b"
| "truthy (JNumber n) = (n \<noteq> 0)"
| "truthy (JString s) = (s \<noteq> [])"
| "truthy JObject = True"

fun typeof_string :: "js_value \<Rightarrow> bool" where
  "typeof_string (JString s) = True"
| "typeof_string v = False"

section \<open>Locator validation (\<open>validateVideoUrl\<close>)\<close>

text \<open>
  The pattern is
  \<^verbatim>\<open>/^https?:\/\/(www\.)?(tiktok\.com|vm\.tiktok\.com|vt\.tiktok\.com)\/.+/i\<close>.
  It is anchored at the start only, so \<open>test\<close> succeeds iff, for one choice of the
  optional parts and of the alternative, the input starts with that literal (letters
  compared without regard to case), and one more code unit follows that is not a line
  terminator (\<open>.\<close> matches anything else; what comes after the first \<open>.\<close> is free).

  Without the \<open>u\<close> flag, case-insensitive matching compares canonicalised code units:
  the upper-case mapping, except that a code unit of 128 or more is never mapped below
  128. Every character of the pattern is ASCII, so only the ASCII part of the mapping
  decides a comparison, and that part is what \<open>canonicalize\<close> computes.
\<close>

definition canonicalize :: "nat \<Rightarrow> nat" where
  "canonicalize c = (if 97 \<le> c \<and> c \<le> 122 then c - 32 else c)"

definition lineTerminator :: "nat \<Rightarrow> bool" where
  "lineTerminator c = (c = 10 \<or> c = 13 \<or> c = 8232 \<or> c = 8233)"

definition matches_literal :: "js_string \<Rightarrow> js_string \<Rightarrow> bool" where
  "matches_literal lit s =
     (map canonicalize (take (length lit) s) = map canonicalize lit)"

text \<open>The literals the pattern can match up to and including the slash after the host.\<close>

definition tiktokUrlPattern_heads :: "js_string list" where
  "tiktokUrlPattern_heads =
     concat (map (\<lambda>scheme. concat (map (\<lambda>www. map (\<lambda>host.
         ascii scheme @ ascii ''://'' @ ascii www @ ascii host @ ascii ''/'')
       [''tiktok.com'', ''vm.tiktok.com'', ''vt.tiktok.com''])
       [''www.'', ''''])) [''https'', ''http''])"

definition dot_plus :: "js_string \<Rightarrow> bool" where
  "dot_plus s = (case s of [] \<Rightarrow> False | c # rest \<Rightarrow> \<not> lineTerminator c)"

definition tiktokUrlPattern_test :: "js_string \<Rightarrow> bool" where
  "tiktokUrlPattern_test s =
     list_ex (\<lambda>h. matches_literal h s \<and> dot_plus (drop (length h) s))
       tiktokUrlPattern_heads"

definition validateVideoUrl :: "js_value \<Rightarrow> bool" where
  "validateVideoUrl videoUrl =
     (if \<not> truthy videoUrl then False
      else if \<not> typeof_string videoUrl then False
      else (case videoUrl of JString s \<Rightarrow> tiktokUrlPattern_test s | _ \<Rightarrow> False))"

section \<open>Configuration\<close>

text \<open>
  \<open>config.tiktok\<close>: \<open>maxRetries\<close> is \<open>parseInt(process.env.MAX_RETRIES, 10) || 3\<close> and
  \<open>retryDelay\<close> is \<open>parseInt(process.env.RETRY_DELAY, 10) || 5000\<close>; both are taken as
  parameters. \<open>default_config\<close> is the configuration with no environment override.
\<close>

record tiktok_config =
  maxRetries :: int
  retryDelay :: int

definition default_config :: tiktok_config where
  "default_config = \<lparr> maxRetries = 3, retryDelay = 5000 \<rparr>"

section \<open>Provider state (\<open>BaseProvider\<close>)\<close>

text \<open>
  \<open>betweenActions\<close> is \<open>this.config.delays.betweenActions\<close>. Every \<open>Date.now()\<close> of a
  method is the parameter \<open>now\<close>. A method that can write to \<open>this\<close> returns the
  provider after the call; logging is not modelled.
\<close>

record base_provider =
  providerName :: string
  betweenActions :: int
  isAvailable :: bool
  lastActionTime :: int
  actionCount :: int
  errorCount :: int

definition new_provider :: "string \<Rightarrow> int \<Rightarrow> base_provider" where
  "new_provider name delay =
     \<lparr> providerName = name, betweenActions = delay, isAvailable = True,
       lastActionTime = 0, actionCount = 0, errorCount = 0 \<rparr>"

definition checkAvailability :: "int \<Rightarrow> base_provider \<Rightarrow> bool \<times> base_provider" where
  "checkAvailability now p =
     (if \<not> isAvailable p then (False, p)
      else
        let timeSinceLastAction = now - lastActionTime p;
            minDelay = betweenActions p
        in if timeSinceLastAction < minDelay then (False, p) else (True, p))"

definition updateStats :: "tiktok_config \<Rightarrow> int \<Rightarrow> bool \<Rightarrow> base_provider \<Rightarrow> base_provider" where
  "updateStats cfg now success p =
     (let p1 = p\<lparr> lastActionTime := now \<rparr>;
          p2 = p1\<lparr> actionCount := actionCount p1 + 1 \<rparr>
      in if success then p2\<lparr> errorCount := 0 \<rparr>
         else
           let p3 = p2\<lparr> errorCount := errorCount p2 + 1 \<rparr>
           in if errorCount p3 \<ge> maxRetries cfg then p3\<lparr> isAvailable := False \<rparr> else p3)"

definition resetAvailability :: "base_provider \<Rightarrow> base_provider" where
  "resetAvailability p = p\<lparr> isAvailable := True, errorCount := 0 \<rparr>"

record provider_stats =
  stats_providerName :: string
  stats_isAvailable :: bool
  stats_actionCount :: int
  stats_errorCount :: int
  stats_lastActionTime :: int
  timeSinceLastAction :: int

definition getStats :: "int \<Rightarrow> base_provider \<Rightarrow> provider_stats" where
  "getStats now p =
     \<lparr> stats_providerName = providerName p,
       stats_isAvailable = isAvailable p,
       stats_actionCount = actionCount p,
       stats_errorCount = errorCount p,
       stats_lastActionTime = lastActionTime p,
       timeSinceLastAction = now - lastActionTime p \<rparr>"

section \<open>The provider's execution (\<open>ZefoyProvider.performAction\<close>)\<close>

text \<open>
  Messages are kept as constructors:
  \<^item> \<open>InvalidTikTokVideoURL\<close> is \<^verbatim>\<open>'Invalid TikTok video URL'\<close>;
  \<^item> \<open>InvalidActionType a\<close> is \<^verbatim>\<open>`Invalid action type: ${actionType}`\<close>;
  \<^item> \<open>NoAvailableProviders\<close> is \<^verbatim>\<open>'No available providers'\<close> (stored in the task);
  \<^item> \<open>NoAvailableProvidersForAction\<close> is \<^verbatim>\<open>'No available providers for this action'\<close>;
  \<^item> \<open>ProviderNotAvailable\<close> is \<^verbatim>\<open>'Provider not available'\<close>;
  \<^item> \<open>ProviderNotFound n\<close> is \<^verbatim>\<open>`Provider not found: ${task.provider}`\<close>;
  \<^item> \<open>Thrown m\<close> is the \<open>message\<close> of an exception raised while driving the browser.
\<close>

datatype error_message =
    InvalidTikTokVideoURL
  | InvalidActionType js_value
  | NoAvailableProviders
  | NoAvailableProvidersForAction
  | ProviderNotAvailable
  | ProviderNotFound "string option"
  | Thrown string

datatype task_status = Pending | Running | Retrying | Completed | Failed | Cancelled

text \<open>
  \<open>options.maxAttempts\<close>: absent (\<open>undefined\<close>), \<open>null\<close> or an integer. Overrides of
  another type are outside the model (the code would then compare \<open>attempts\<close> with a
  coerced value).
\<close>

datatype override = Undefined | Null | Number int

record action_options =
  opt_maxAttempts :: override

text \<open>The result object; a key the object does not have is \<open>None\<close>.\<close>

record action_result =
  success :: bool
  res_error :: "error_message option"
  res_provider :: "string option"
  res_actionType :: "js_value option"
  res_videoUrl :: "js_value option"
  res_sessionId :: "string option"
  res_taskId :: "string option"
  res_status :: "task_status option"
  res_attempts :: "int option"
  res_maxAttempts :: "int option"
  res_timestamp :: "int option"

definition empty_result :: action_result where
  "empty_result =
     \<lparr> success = False, res_error = None, res_provider = None, res_actionType = None,
       res_videoUrl = None, res_sessionId = None, res_taskId = None, res_status = None,
       res_attempts = None, res_maxAttempts = None, res_timestamp = None \<rparr>"

text \<open>
  What happens inside the \<open>try\<close> block (launching the browser, navigating, submitting,
  the challenge, the completion signal) is outside the engine: it either runs to the end
  or throws, and that is the parameter \<open>outcome\<close>. The provider is checked at time
  \<open>now\<close>; its statistics are updated at time \<open>finished\<close>.
\<close>

datatype browser_outcome = BrowserOk | BrowserThrew string

definition zefoy_performAction ::
  "tiktok_config \<Rightarrow> int \<Rightarrow> int \<Rightarrow> string \<Rightarrow> js_value \<Rightarrow> js_value \<Rightarrow> browser_outcome
     \<Rightarrow> base_provider \<Rightarrow> action_result \<times> base_provider" where
  "zefoy_performAction cfg now finished sessionId videoUrl actionType outcome p =
     (if \<not> fst (checkAvailability now p) then
        (empty_result\<lparr> success := False, res_error := Some ProviderNotAvailable,
           res_provider := Some (providerName p), res_actionType := Some actionType \<rparr>, p)
      else if \<not> validateVideoUrl videoUrl then
        (empty_result\<lparr> success := False, res_error := Some InvalidTikTokVideoURL,
           res_provider := Some (providerName p), res_actionType := Some actionType \<rparr>, p)
      else
        (case outcome of
           BrowserOk \<Rightarrow>
             (empty_result\<lparr> success := True, res_provider := Some (providerName p),
                res_actionType := Some actionType, res_videoUrl := Some videoUrl,
                res_sessionId := Some sessionId, res_timestamp := Some finished \<rparr>,
              updateStats cfg finished True p)
         | BrowserThrew msg \<Rightarrow>
             (empty_result\<lparr> success := False, res_error := Some (Thrown msg),
                res_provider := Some (providerName p), res_actionType := Some actionType,
                res_videoUrl := Some videoUrl, res_sessionId := Some sessionId,
                res_timestamp := Some finished \<rparr>,
              updateStats cfg finished False p)))"

section \<open>The orchestrator's state (\<open>TikTokService\<close>)\<close>

text \<open>
  A task is a mutable object that the active store, the history and the local variable of
  a suspended \<open>performAction\<close> or \<open>retryTask\<close> all refer to. Task objects therefore live
  in a store \<open>heap\<close>, addressed by reference; \<open>allocated\<close> counts the objects created,
  and the next object gets that number as its reference.
\<close>

type_synonym task_ref = nat

record task =
  task_id :: string
  videoUrl :: js_value
  actionType :: js_value
  options :: action_options
  status :: task_status
  createdAt :: int
  attempts :: int
  maxAttempts :: int
  provider :: "string option"
  error :: "error_message option"
  completedAt :: "int option"
  cancelledAt :: "int option"
  result :: "action_result option"

definition blank_task :: task where
  "blank_task =
     \<lparr> task_id = [], videoUrl = JUndefined, actionType = JUndefined,
       options = \<lparr> opt_maxAttempts = Undefined \<rparr>, status = Pending, createdAt = 0,
       attempts = 0, maxAttempts = 0, provider = None, error = None, completedAt = None,
       cancelledAt = None, result = None \<rparr>"

text \<open>
  \<open>providers\<close> is a \<open>Map\<close> in insertion order. \<open>activeTasks\<close> is a \<open>Map\<close> from the task id
  to the task object. \<open>taskHistory\<close> is the array of task objects. \<open>timers\<close> holds the
  task ids of the \<open>setTimeout\<close> callbacks \<open>retryTask(taskId)\<close> that have been scheduled
  and have not fired yet, oldest first (all have the same delay).
\<close>

record tiktok_service =
  providers :: "(string \<times> base_provider) list"
  activeTasks :: "string \<rightharpoonup> task_ref"
  taskHistory :: "task_ref list"
  heap :: "task_ref \<Rightarrow> task"
  allocated :: nat
  timers :: "string list"

text \<open>The constructor: \<open>initializeProviders\<close> registers the one provider \<open>zefoy\<close>.\<close>

definition new_service :: tiktok_service where
  "new_service =
     \<lparr> providers = [(''zefoy'', new_provider ''zefoy'' 30000)],
       activeTasks = Map.empty, taskHistory = [], heap = (\<lambda>r. blank_task),
       allocated = 0, timers = [] \<rparr>"

definition update_task :: "task_ref \<Rightarrow> (task \<Rightarrow> task) \<Rightarrow> tiktok_service \<Rightarrow> tiktok_service" where
  "update_task r f s = s\<lparr> heap := (heap s)(r := f (heap s r)) \<rparr>"

definition update_provider ::
  "string \<Rightarrow> base_provider \<Rightarrow> (string \<times> base_provider) list \<Rightarrow> (string \<times> base_provider) list" where
  "update_provider key p ps = map (\<lambda>(k, q). if k = key then (k, p) else (k, q)) ps"

definition getAvailableActions :: "js_value list" where
  "getAvailableActions =
     map (\<lambda>a. JString (ascii a))
       [''views'', ''likes'', ''shares'', ''favorites'', ''followers'', ''comments'']"

text \<open>\<open>Array.prototype.slice(-n)\<close> for a positive \<open>n\<close>: the last \<open>n\<close> elements.\<close>

definition slice_last :: "nat \<Rightarrow> 'a list \<Rightarrow> 'a list" where
  "slice_last n xs = drop (length xs - n) xs"

definition completeTask :: "string \<Rightarrow> task_ref \<Rightarrow> tiktok_service \<Rightarrow> tiktok_service" where
  "completeTask taskId task s =
     (let s1 = s\<lparr> activeTasks := (activeTasks s)(taskId := None) \<rparr>;
          s2 = s1\<lparr> taskHistory := taskHistory s1 @ [task] \<rparr>
      in if length (taskHistory s2) > 1000
         then s2\<lparr> taskHistory := slice_last 1000 (taskHistory s2) \<rparr>
         else s2)"

definition cancelTask :: "int \<Rightarrow> string \<Rightarrow> tiktok_service \<Rightarrow> bool \<times> tiktok_service" where
  "cancelTask now taskId s =
     (case activeTasks s taskId of
        None \<Rightarrow> (False, s)
      | Some task \<Rightarrow>
          let s1 = update_task task (\<lambda>t. t\<lparr> status := Cancelled \<rparr>) s;
              s2 = update_task task (\<lambda>t. t\<lparr> cancelledAt := Some now \<rparr>) s1
          in (True, completeTask taskId task s2))"

text \<open>\<open>resetProviders\<close> calls \<open>resetAvailability\<close> on every registered provider.\<close>

definition resetProviders :: "tiktok_service \<Rightarrow> tiktok_service" where
  "resetProviders s = s\<lparr> providers := map (\<lambda>(k, p). (k, resetAvailability p)) (providers s) \<rparr>"

section \<open>Provider selection (\<open>findAvailableProvider\<close>)\<close>

text \<open>
  The comparison function handed to \<open>sort\<close>; both \<open>getStats\<close> calls of one comparison
  read the clock at the same instant \<open>now\<close>.
\<close>

definition compareProviders :: "int \<Rightarrow> base_provider \<Rightarrow> base_provider \<Rightarrow> int" where
  "compareProviders now a b =
     (let aStats = getStats now a; bStats = getStats now b
      in if stats_errorCount aStats \<noteq> stats_errorCount bStats
         then stats_errorCount aStats - stats_errorCount bStats
         else timeSinceLastAction aStats - timeSinceLastAction bStats)"

text \<open>
  \<open>Array.prototype.sort\<close> with a comparison function is a stable sort: \<open>a\<close> comes before
  \<open>b\<close> when the function is negative, and elements it gives 0 keep their order.
\<close>

fun insert_sorted :: "('a \<Rightarrow> 'a \<Rightarrow> int) \<Rightarrow> 'a \<Rightarrow> 'a list \<Rightarrow> 'a list" where
  "insert_sorted cmp x [] = [x]"
| "insert_sorted cmp x (y # ys) =
     (if cmp x y \<le> 0 then x # y # ys else y # insert_sorted cmp x ys)"

definition array_sort :: "('a \<Rightarrow> 'a \<Rightarrow> int) \<Rightarrow> 'a list \<Rightarrow> 'a list" where
  "array_sort cmp xs = foldr (insert_sorted cmp) xs []"

text \<open>
  The provider object found is returned with the key under which \<open>providers\<close> holds it;
  the key stands for the reference to the object.
\<close>

definition findAvailableProvider ::
  "int \<Rightarrow> tiktok_service \<Rightarrow> (string \<times> base_provider) option" where
  "findAvailableProvider now s =
     (let availableProviders =
            filter (\<lambda>(k, p). fst (checkAvailability now p)) (providers s)
      in if length availableProviders = 0 then None
         else
           (case array_sort (\<lambda>a b. compareProviders now (snd a) (snd b)) availableProviders of
              [] \<Rightarrow> None
            | first # rest \<Rightarrow> Some first))"

subsection \<open>The selection as the specification words it\<close>

text \<open>
  The specification's wording, to compare \<open>findAvailableProvider\<close> with: the candidates are
  the providers whose \<open>checkAvailability\<close> is true; they are sorted ascending by
  \<open>(errorCount, \<minus>timeSinceLastAction)\<close>, ties keeping the order of registration, and
  the first is returned; no candidate gives none.
\<close>

definition compareProviders_spec :: "int \<Rightarrow> base_provider \<Rightarrow> base_provider \<Rightarrow> int" where
  "compareProviders_spec now a b =
     (let aStats = getStats now a; bStats = getStats now b
      in if stats_errorCount aStats \<noteq> stats_errorCount bStats
         then stats_errorCount aStats - stats_errorCount bStats
         else (- timeSinceLastAction aStats) - (- timeSinceLastAction bStats))"

definition selectProvider_spec ::
  "int \<Rightarrow> tiktok_service \<Rightarrow> (string \<times> base_provider) option" where
  "selectProvider_spec now s =
     (case array_sort (\<lambda>a b. compareProviders_spec now (snd a) (snd b))
             (filter (\<lambda>(k, p). fst (checkAvailability now p)) (providers s)) of
        [] \<Rightarrow> None
      | first # rest \<Rightarrow> Some first)"

section \<open>Submitting and retrying (\<open>performAction\<close>, \<open>executeAction\<close>, \<open>retryTask\<close>)\<close>

text \<open>
  \<open>performAction\<close> and \<open>retryTask\<close> are asynchronous: each runs up to
  \<open>await this.executeAction(...)\<close>, is suspended while the provider works, and is resumed
  with the provider's result. Other operations of the service (\<open>cancelTask\<close>, another
  \<open>performAction\<close>, a timer) can run in between. Each function is therefore two steps,
  \<open>_start\<close> and \<open>_resume\<close>; a suspended call is the record of its local variables.
\<close>

record pending_call =
  pc_taskId :: string
  pc_task :: task_ref
  pc_provider :: string
  pc_videoUrl :: js_value
  pc_actionType :: js_value
  pc_options :: action_options

datatype 'a step = Returned 'a | Awaiting pending_call

text \<open>
  \<open>executeAction\<close> hands over to the provider's \<open>performAction\<close>, which catches every
  exception itself and always returns a result object. Entries of \<open>providers\<close> are never
  removed, so the object of a key that came from \<open>findAvailableProvider\<close> or from
  \<open>providers.get\<close> is there.
\<close>

definition executeAction ::
  "tiktok_config \<Rightarrow> int \<Rightarrow> int \<Rightarrow> string \<Rightarrow> pending_call \<Rightarrow> browser_outcome
     \<Rightarrow> tiktok_service \<Rightarrow> action_result \<times> tiktok_service" where
  "executeAction cfg now finished sessionId pc outcome s =
     (case map_of (providers s) (pc_provider pc) of
        None \<Rightarrow> (empty_result, s)
      | Some p \<Rightarrow>
          let (res, p') = zefoy_performAction cfg now finished sessionId
                            (pc_videoUrl pc) (pc_actionType pc) outcome p
          in (res, s\<lparr> providers := update_provider (pc_provider pc) p' (providers s) \<rparr>))"

text \<open>\<open>options.maxAttempts || config.tiktok.maxRetries\<close>.\<close>

definition maxAttempts_or_default :: "tiktok_config \<Rightarrow> action_options \<Rightarrow> int" where
  "maxAttempts_or_default cfg opts =
     (case opt_maxAttempts opts of
        Undefined \<Rightarrow> maxRetries cfg
      | Null \<Rightarrow> maxRetries cfg
      | Number n \<Rightarrow> if n \<noteq> 0 then n else maxRetries cfg)"

text \<open>The default parameter \<open>actionType = 'views'\<close> replaces an argument that is \<open>undefined\<close>.\<close>

definition default_actionType :: "js_value \<Rightarrow> js_value" where
  "default_actionType a = (if a = JUndefined then JString (ascii ''views'') else a)"

text \<open>
  \<open>performAction\<close> up to its \<open>await this.executeAction(...)\<close>. \<open>taskId\<close> is the value of
  \<open>uuidv4()\<close>, and \<open>opts\<close> is the options object (\<open>{}\<close> when the argument is left out).
  \<open>findAvailableProvider\<close> has no suspension point of its own and is taken in the same
  step. Nothing inside the \<open>try\<close> block throws (\<open>executeAction\<close> catches what the provider
  throws), so the \<open>catch\<close> block of \<open>performAction\<close> has no counterpart here.
\<close>

definition performAction_start ::
  "tiktok_config \<Rightarrow> int \<Rightarrow> string \<Rightarrow> js_value \<Rightarrow> js_value \<Rightarrow> action_options
     \<Rightarrow> tiktok_service \<Rightarrow> action_result step \<times> tiktok_service" where
  "performAction_start cfg now taskId url kind0 opts s =
     (let kind = default_actionType kind0
      in if \<not> validateVideoUrl url then
           (Returned (empty_result\<lparr> success := False, res_error := Some InvalidTikTokVideoURL,
                        res_timestamp := Some now \<rparr>), s)
         else if \<not> List.member getAvailableActions kind then
           (Returned (empty_result\<lparr> success := False,
                        res_error := Some (InvalidActionType kind),
                        res_timestamp := Some now \<rparr>), s)
         else
           let r = allocated s;
               t = \<lparr> task_id = taskId, videoUrl = url, actionType = kind,
                     options = opts, status = Pending, createdAt = now, attempts = 0,
                     maxAttempts = maxAttempts_or_default cfg opts, provider = None,
                     error = None, completedAt = None, cancelledAt = None, result = None \<rparr>;
               s1 = s\<lparr> heap := (heap s)(r := t), allocated := Suc r \<rparr>;
               s2 = s1\<lparr> activeTasks := (activeTasks s1)(taskId \<mapsto> r) \<rparr>
           in (case findAvailableProvider now s2 of
                 None \<Rightarrow>
                   let s3 = update_task r (\<lambda>t. t\<lparr> status := Failed \<rparr>) s2;
                       s4 = update_task r (\<lambda>t. t\<lparr> error := Some NoAvailableProviders \<rparr>) s3
                   in (Returned (empty_result\<lparr> success := False,
                                   res_error := Some NoAvailableProvidersForAction,
                                   res_taskId := Some taskId, res_timestamp := Some now \<rparr>),
                       completeTask taskId r s4)
               | Some (key, p) \<Rightarrow>
                   let s3 = update_task r (\<lambda>t. t\<lparr> provider := Some (providerName p) \<rparr>) s2;
                       s4 = update_task r (\<lambda>t. t\<lparr> status := Running \<rparr>) s3;
                       s5 = s4\<lparr> activeTasks := (activeTasks s4)(taskId \<mapsto> r) \<rparr>
                   in (Awaiting \<lparr> pc_taskId = taskId, pc_task = r, pc_provider = key,
                                  pc_videoUrl = url, pc_actionType = kind,
                                  pc_options = opts \<rparr>, s5)))"

text \<open>\<open>performAction\<close> from the point where \<open>executeAction\<close> has delivered \<open>res\<close>.\<close>

definition performAction_resume ::
  "int \<Rightarrow> pending_call \<Rightarrow> action_result \<Rightarrow> tiktok_service
     \<Rightarrow> action_result \<times> tiktok_service" where
  "performAction_resume now pc res s =
     (let r = pc_task pc; taskId = pc_taskId pc
      in if success res then
           let s1 = update_task r (\<lambda>t. t\<lparr> status := Completed \<rparr>) s;
               s2 = update_task r (\<lambda>t. t\<lparr> completedAt := Some now \<rparr>) s1;
               s3 = update_task r (\<lambda>t. t\<lparr> result := Some res \<rparr>) s2
           in (res, completeTask taskId r s3)
         else
           let s1 = update_task r (\<lambda>t. t\<lparr> status := Failed \<rparr>) s;
               s2 = update_task r (\<lambda>t. t\<lparr> error := res_error res \<rparr>) s1;
               s3 = update_task r (\<lambda>t. t\<lparr> attempts := attempts t + 1 \<rparr>) s2
           in if attempts (heap s3 r) < maxAttempts (heap s3 r) then
                let s4 = update_task r (\<lambda>t. t\<lparr> status := Retrying \<rparr>) s3;
                    s5 = s4\<lparr> timers := timers s4 @ [taskId] \<rparr>
                in (empty_result\<lparr> success := False, res_error := res_error res,
                      res_taskId := Some taskId, res_status := Some Retrying,
                      res_attempts := Some (attempts (heap s5 r)),
                      res_maxAttempts := Some (maxAttempts (heap s5 r)),
                      res_timestamp := Some now \<rparr>, s5)
              else (res, completeTask taskId r s3))"

text \<open>
  \<open>retryTask\<close> up to its \<open>await this.executeAction(...)\<close>. The \<open>throw\<close> for a provider
  that is not registered is caught by the function's own \<open>catch\<close>.
\<close>

definition retryTask_start :: "string \<Rightarrow> tiktok_service \<Rightarrow> unit step \<times> tiktok_service" where
  "retryTask_start taskId s =
     (case activeTasks s taskId of
        None \<Rightarrow> (Returned (), s)
      | Some r \<Rightarrow>
          if status (heap s r) \<noteq> Retrying then (Returned (), s)
          else
            (case (case provider (heap s r) of
                     None \<Rightarrow> None
                   | Some name \<Rightarrow> map_option (\<lambda>p. name) (map_of (providers s) name)) of
               None \<Rightarrow>
                 let s1 = update_task r (\<lambda>t. t\<lparr> status := Failed \<rparr>) s;
                     s2 = update_task r
                            (\<lambda>t. t\<lparr> error := Some (ProviderNotFound (provider t)) \<rparr>) s1;
                     s3 = update_task r (\<lambda>t. t\<lparr> attempts := attempts t + 1 \<rparr>) s2
                 in (Returned (), completeTask taskId r s3)
             | Some key \<Rightarrow>
                 (Awaiting \<lparr> pc_taskId = taskId, pc_task = r, pc_provider = key,
                             pc_videoUrl = videoUrl (heap s r),
                             pc_actionType = actionType (heap s r),
                             pc_options = options (heap s r) \<rparr>, s)))"

text \<open>\<open>retryTask\<close> from the point where \<open>executeAction\<close> has delivered \<open>res\<close>.\<close>

definition retryTask_resume ::
  "int \<Rightarrow> pending_call \<Rightarrow> action_result \<Rightarrow> tiktok_service \<Rightarrow> tiktok_service" where
  "retryTask_resume now pc res s =
     (let r = pc_task pc; taskId = pc_taskId pc
      in if success res then
           let s1 = update_task r (\<lambda>t. t\<lparr> status := Completed \<rparr>) s;
               s2 = update_task r (\<lambda>t. t\<lparr> completedAt := Some now \<rparr>) s1;
               s3 = update_task r (\<lambda>t. t\<lparr> result := Some res \<rparr>) s2
           in completeTask taskId r s3
         else
           let s1 = update_task r (\<lambda>t. t\<lparr> status := Failed \<rparr>) s;
               s2 = update_task r (\<lambda>t. t\<lparr> error := res_error res \<rparr>) s1;
               s3 = update_task r (\<lambda>t. t\<lparr> attempts := attempts t + 1 \<rparr>) s2
           in completeTask taskId r s3)"

subsection \<open>Uninterrupted runs\<close>

text \<open>
  A whole \<open>performAction\<close> with nothing else running while it is suspended, and the
  firing of the oldest pending timer, again with nothing else running in between.
\<close>

definition performAction ::
  "tiktok_config \<Rightarrow> int \<Rightarrow> string \<Rightarrow> string \<Rightarrow> js_value \<Rightarrow> js_value \<Rightarrow> action_options
     \<Rightarrow> browser_outcome \<Rightarrow> tiktok_service \<Rightarrow> action_result \<times> tiktok_service" where
  "performAction cfg now taskId sessionId url kind opts outcome s =
     (case performAction_start cfg now taskId url kind opts s of
        (Returned res, s1) \<Rightarrow> (res, s1)
      | (Awaiting pc, s1) \<Rightarrow>
          let (res, s2) = executeAction cfg now now sessionId pc outcome s1
          in performAction_resume now pc res s2)"

definition fire_timer ::
  "tiktok_config \<Rightarrow> int \<Rightarrow> string \<Rightarrow> browser_outcome \<Rightarrow> tiktok_service \<Rightarrow> tiktok_service" where
  "fire_timer cfg now sessionId outcome s =
     (case timers s of
        [] \<Rightarrow> s
      | taskId # rest \<Rightarrow>
          (case retryTask_start taskId (s\<lparr> timers := rest \<rparr>) of
             (Returned u, s1) \<Rightarrow> s1
           | (Awaiting pc, s1) \<Rightarrow>
               let (res, s2) = executeAction cfg now now sessionId pc outcome s1
               in retryTask_resume now pc res s2))"

section \<open>Reachable states\<close>

text \<open>
  The states of the service: the constructor's, and what any step of any operation makes
  of one. Every step is taken with arbitrary arguments (any suspended call, any result
  handed to a resumption), so every state the running service can be in is among them.
\<close>

inductive reachable :: "tiktok_service \<Rightarrow> bool" where
  constructed: "reachable new_service"
| submitted: "reachable s \<Longrightarrow>
    reachable (snd (performAction_start cfg now taskId url kind opts s))"
| executed: "reachable s \<Longrightarrow>
    reachable (snd (executeAction cfg now finished sessionId pc outcome s))"
| submit_resumed: "reachable s \<Longrightarrow> reachable (snd (performAction_resume now pc res s))"
| timer_fired: "reachable s \<Longrightarrow> timers s = taskId # rest \<Longrightarrow>
    reachable (snd (retryTask_start taskId (s\<lparr> timers := rest \<rparr>)))"
| retry_resumed: "reachable s \<Longrightarrow> reachable (retryTask_resume now pc res s)"
| cancelled: "reachable s \<Longrightarrow> reachable (snd (cancelTask now taskId s))"
| providers_reset: "reachable s \<Longrightarrow> reachable (resetProviders s)"

section \<open>Sequences of operations\<close>

text \<open>
  The methods through which a provider object is read or written, and a run of them in
  order. \<open>Perform\<close> is the provider's own \<open>performAction\<close>.
\<close>

datatype provider_op =
    CheckAvailability int
  | UpdateStats int bool
  | ResetAvailability
  | GetStats int
  | Perform int int string js_value js_value browser_outcome

fun apply_op :: "tiktok_config \<Rightarrow> provider_op \<Rightarrow> base_provider \<Rightarrow> base_provider" where
  "apply_op cfg (CheckAvailability now) p = snd (checkAvailability now p)"
| "apply_op cfg (UpdateStats now ok) p = updateStats cfg now ok p"
| "apply_op cfg ResetAvailability p = resetAvailability p"
| "apply_op cfg (GetStats now) p = p"
| "apply_op cfg (Perform now finished sessionId url kind outcome) p =
     snd (zefoy_performAction cfg now finished sessionId url kind outcome p)"

definition run_ops :: "tiktok_config \<Rightarrow> provider_op list \<Rightarrow> base_provider \<Rightarrow> base_provider" where
  "run_ops cfg ops p = fold (apply_op cfg) ops p"

fun is_reset :: "provider_op \<Rightarrow> bool" where
  "is_reset ResetAvailability = True"
| "is_reset x = False"

text \<open>Tasks reaching a terminal state one after the other: \<open>completeTask\<close> for each.\<close>

definition completeTasks :: "(string \<times> task_ref) list \<Rightarrow> tiktok_service \<Rightarrow> tiktok_service" where
  "completeTasks xs s = fold (\<lambda>(taskId, r). completeTask taskId r) xs s"

text \<open>
  \<open>config.tiktok\<close> as the configuration module computes it: \<open>parseInt(...) || d\<close>, where
  \<open>None\<close> is the \<open>NaN\<close> of a variable that is unset or not a number.
\<close>

definition or_default :: "int option \<Rightarrow> int \<Rightarrow> int" where
  "or_default v d = (case v of None \<Rightarrow> d | Some n \<Rightarrow> if n \<noteq> 0 then n else d)"

definition config_from_env :: "int option \<Rightarrow> int option \<Rightarrow> tiktok_config" where
  "config_from_env max_retries retry_delay =
     \<lparr> maxRetries = or_default max_retries 3, retryDelay = or_default retry_delay 5000 \<rparr>"

section \<open>Schedules and sample inputs\<close>

text \<open>
  A submit whose task is cancelled while the provider is at work: \<open>performAction\<close> runs up
  to its \<open>await\<close>, \<open>cancelTask\<close> runs at \<open>cancel_time\<close>, the provider finishes at
  \<open>finished\<close>, and \<open>performAction\<close> is resumed with the provider's result.
\<close>

definition performAction_cancelled_in_flight ::
  "tiktok_config \<Rightarrow> int \<Rightarrow> string \<Rightarrow> string \<Rightarrow> js_value \<Rightarrow> js_value \<Rightarrow> action_options
     \<Rightarrow> browser_outcome \<Rightarrow> int \<Rightarrow> int \<Rightarrow> tiktok_service \<Rightarrow> action_result \<times> tiktok_service" where
  "performAction_cancelled_in_flight cfg now taskId sessionId url kind opts outcome
       cancel_time finished s =
     (case performAction_start cfg now taskId url kind opts s of
        (Returned res, s1) \<Rightarrow> (res, s1)
      | (Awaiting pc, s1) \<Rightarrow>
          let (cancelled, s2) = cancelTask cancel_time taskId s1;
              (res, s3) = executeAction cfg now finished sessionId pc outcome s2
          in performAction_resume finished pc res s3)"

text \<open>
  A provider map with a second backend, which the service as it is never has (it
  registers \<open>zefoy\<close> only): the two differ in when they last acted, \<open>zefoy\<close> never did,
  \<open>freer\<close> did (with success) at time 1000.
\<close>

definition two_providers :: "(string \<times> base_provider) list" where
  "two_providers =
     [(''zefoy'', new_provider ''zefoy'' 30000),
      (''freer'', (new_provider ''freer'' 25000)\<lparr> lastActionTime := 1000, actionCount := 1 \<rparr>)]"

text \<open>A valid target, an action kind of the enumerated set, and no options.\<close>

definition example_url :: js_value where
  "example_url = JString (ascii ''https://www.tiktok.com/@u/video/123'')"

definition views :: js_value where
  "views = JString (ascii ''views'')"

definition no_options :: action_options where
  "no_options = \<lparr> opt_maxAttempts = Undefined \<rparr>"

text \<open>
  The task the first submit to a new service creates, and the call that is suspended on
  the provider for it.
\<close>

definition example_task :: task where
  "example_task =
     \<lparr> task_id = ''t1'', videoUrl = example_url, actionType = views, options = no_options,
       status = Pending, createdAt = 100000, attempts = 0, maxAttempts = 3, provider = None,
       error = None, completedAt = None, cancelledAt = None, result = None \<rparr>"

definition example_call :: pending_call where
  "example_call =
     \<lparr> pc_taskId = ''t1'', pc_task = 0, pc_provider = ''zefoy'', pc_videoUrl = example_url,
       pc_actionType = views, pc_options = no_options \<rparr>"

text \<open>
  A submit to a new service under the default configuration whose provider throws
  (message \<open>m\<close>), and the firing of the retry timer it schedules, at time \<open>later\<close>, where
  the provider is asked again and throws again (message \<open>m'\<close>).
\<close>

definition failing_submit :: "string \<Rightarrow> action_result \<times> tiktok_service" where
  "failing_submit m =
     performAction default_config 100000 ''t1'' ''s1'' example_url views no_options
       (BrowserThrew m) new_service"

definition failing_retry :: "string \<Rightarrow> int \<Rightarrow> string \<Rightarrow> tiktok_service" where
  "failing_retry m later m' =
     fire_timer default_config later ''s2'' (BrowserThrew m') (snd (failing_submit m))"

text \<open>
  A submit to a new service that is cancelled at time 100500, while the provider works;
  the provider ends with \<open>outcome\<close> at time 101000.
\<close>

definition cancelled_while_running :: "browser_outcome \<Rightarrow> tiktok_service" where
  "cancelled_while_running outcome =
     snd (performAction_cancelled_in_flight default_config 100000 ''t1'' ''s1'' example_url
            views no_options outcome 100500 101000 new_service)"

text \<open>
  \<open>completed_submits n\<close>: \<open>n\<close> submits to a new service, 100 seconds apart, each with an
  id of its own, each run to its end with the provider succeeding. \<open>cancelled_after n\<close>:
  one more submit after them, which is cancelled 500 ms later, while the provider works,
  and whose provider call succeeds after another 500 ms.
\<close>

definition task_name :: "nat \<Rightarrow> string" where
  "task_name n = replicate (Suc n) CHR ''t''"

fun completed_submits :: "nat \<Rightarrow> tiktok_service" where
  "completed_submits 0 = new_service"
| "completed_submits (Suc n) =
     snd (performAction default_config (100000 * (int n + 1)) (task_name n) (task_name n)
            example_url views no_options BrowserOk (completed_submits n))"

definition cancelled_after :: "nat \<Rightarrow> tiktok_service" where
  "cancelled_after n =
     snd (performAction_cancelled_in_flight default_config (100000 * (int n + 1))
            (task_name n) (task_name n) example_url views no_options BrowserOk
            (100000 * (int n + 1) + 500) (100000 * (int n + 1) + 1000) (completed_submits n))"

section \<open>Properties of the provider state\<close>

lemma checkAvailability_snd: "snd (checkAvailability now p) = p"
  by (simp add: checkAvailability_def Let_def)

lemma checkAvailability_fst:
  "fst (checkAvailability now p) = (isAvailable p \<and> \<not> now - lastActionTime p < betweenActions p)"
  by (simp add: checkAvailability_def Let_def)

text \<open>
  C9. \<open>checkAvailability\<close> answers false when the circuit is open, answers false when
  less than the configured delay has passed since the last action, and in every case
  leaves the provider as it was.
\<close>

theorem checkAvailability_frame:
  "(\<not> isAvailable p \<longrightarrow> fst (checkAvailability now p) = False) \<and>
   (now - lastActionTime p < betweenActions p \<longrightarrow> fst (checkAvailability now p) = False) \<and>
   snd (checkAvailability now p) = p \<and>
   isAvailable (snd (checkAvailability now p)) = isAvailable p \<and>
   errorCount (snd (checkAvailability now p)) = errorCount p \<and>
   actionCount (snd (checkAvailability now p)) = actionCount p \<and>
   lastActionTime (snd (checkAvailability now p)) = lastActionTime p"
  by (simp add: checkAvailability_snd checkAvailability_fst)

theorem checkAvailability_frame_witness:
  "fst (checkAvailability 100 ((new_provider ''zefoy'' 30000)\<lparr> isAvailable := False \<rparr>)) = False \<and>
   fst (checkAvailability 100 (new_provider ''zefoy'' 30000)) = False \<and>
   snd (checkAvailability 100 (new_provider ''zefoy'' 30000)) = new_provider ''zefoy'' 30000"
  using checkAvailability_frame [of "(new_provider ''zefoy'' 30000)\<lparr> isAvailable := False \<rparr>" 100]
    checkAvailability_frame [of "new_provider ''zefoy'' 30000" 100]
  by (simp add: new_provider_def)

lemma updateStats_failure_fields:
  "errorCount (updateStats cfg now False p) = errorCount p + 1"
  "isAvailable (updateStats cfg now False p) =
     (isAvailable p \<and> \<not> maxRetries cfg \<le> errorCount p + 1)"
  by (simp_all add: updateStats_def Let_def)

lemma updateStats_keeps_unavailable:
  "\<not> isAvailable p \<Longrightarrow> \<not> isAvailable (updateStats cfg now ok p)"
  by (simp add: updateStats_def Let_def)

lemma zefoy_performAction_keeps_unavailable:
  "\<not> isAvailable p \<Longrightarrow>
   \<not> isAvailable (snd (zefoy_performAction cfg now finished sid url kind outcome p))"
  by (simp add: zefoy_performAction_def checkAvailability_fst)

lemma apply_op_keeps_unavailable:
  "\<not> isAvailable p \<Longrightarrow> \<not> is_reset x \<Longrightarrow> \<not> isAvailable (apply_op cfg x p)"
  by (cases x)
    (simp_all add: checkAvailability_snd updateStats_keeps_unavailable
      zefoy_performAction_keeps_unavailable)

lemma run_ops_keeps_unavailable:
  "\<not> isAvailable p \<Longrightarrow> list_all (\<lambda>x. \<not> is_reset x) ops \<Longrightarrow>
   \<not> isAvailable (run_ops cfg ops p)"
  unfolding run_ops_def
proof (induction ops arbitrary: p)
  case Nil
  then show ?case by simp
next
  case (Cons x ops)
  from Cons.prems have "\<not> isAvailable (apply_op cfg x p)"
    by (simp add: apply_op_keeps_unavailable)
  with Cons show ?case by simp
qed

lemma failures_errorCount:
  "errorCount (run_ops cfg (map (\<lambda>t. UpdateStats t False) ts) p) = errorCount p + int (length ts)"
  unfolding run_ops_def
  by (induction ts arbitrary: p) (simp_all add: updateStats_failure_fields)

lemma failures_open_circuit:
  assumes "ts \<noteq> []" and "maxRetries cfg \<le> errorCount p + int (length ts)"
  shows "\<not> isAvailable (run_ops cfg (map (\<lambda>t. UpdateStats t False) ts) p)"
proof -
  from assms(1) obtain us u where ts: "ts = us @ [u]"
    by (cases ts rule: rev_cases) auto
  let ?q = "run_ops cfg (map (\<lambda>t. UpdateStats t False) us) p"
  have run: "run_ops cfg (map (\<lambda>t. UpdateStats t False) ts) p = updateStats cfg u False ?q"
    by (simp add: ts run_ops_def)
  have "errorCount ?q + 1 = errorCount p + int (length ts)"
    by (simp add: failures_errorCount ts)
  with assms(2) have "maxRetries cfg \<le> errorCount ?q + 1" by simp
  then show ?thesis by (simp add: run updateStats_failure_fields)
qed

text \<open>
  C4. Failures recorded by \<open>updateStats(false)\<close> that bring \<open>errorCount\<close> to the configured
  threshold make the provider unavailable. From then on it stays unavailable through
  every run of operations at any times, as long as none of them is \<open>resetAvailability\<close>.
  \<open>resetAvailability\<close> makes it available again with \<open>errorCount\<close> 0, and every
  \<open>updateStats(true)\<close> sets \<open>errorCount\<close> to 0.
\<close>

theorem circuit_breaker_latches:
  "(maxRetries cfg \<le> errorCount (updateStats cfg now False p) \<longrightarrow>
      \<not> isAvailable (updateStats cfg now False p)) \<and>
   (ts \<noteq> [] \<and> maxRetries cfg \<le> errorCount p + int (length ts) \<longrightarrow>
      \<not> isAvailable (run_ops cfg (map (\<lambda>t. UpdateStats t False) ts) p)) \<and>
   (\<not> isAvailable p \<and> list_all (\<lambda>x. \<not> is_reset x) ops \<longrightarrow>
      \<not> isAvailable (run_ops cfg ops p)) \<and>
   isAvailable (resetAvailability p) \<and> errorCount (resetAvailability p) = 0 \<and>
   errorCount (updateStats cfg now True p) = 0"
proof -
  have "errorCount (updateStats cfg now True p) = 0"
    by (simp add: updateStats_def Let_def)
  moreover have "isAvailable (resetAvailability p) \<and> errorCount (resetAvailability p) = 0"
    by (simp add: resetAvailability_def)
  ultimately show ?thesis
    by (simp add: updateStats_failure_fields failures_open_circuit run_ops_keeps_unavailable)
qed

theorem circuit_breaker_latches_witness:
  "\<not> isAvailable (run_ops default_config [UpdateStats 1 False, UpdateStats 2 False, UpdateStats 3 False]
       (new_provider ''zefoy'' 30000)) \<and>
   \<not> isAvailable (run_ops default_config
       [CheckAvailability 900000, UpdateStats 900001 True, GetStats 900002,
        Perform 900003 900004 ''s'' (JString (ascii ''https://tiktok.com/x'')) (JString (ascii ''views'')) BrowserOk]
       ((new_provider ''zefoy'' 30000)\<lparr> isAvailable := False, errorCount := 3 \<rparr>)) \<and>
   isAvailable (resetAvailability ((new_provider ''zefoy'' 30000)\<lparr> isAvailable := False, errorCount := 3 \<rparr>))"
  using circuit_breaker_latches [of default_config 3 "(new_provider ''zefoy'' 30000)\<lparr> isAvailable := False, errorCount := 3 \<rparr>" "[]"
      "[CheckAvailability 900000, UpdateStats 900001 True, GetStats 900002,
        Perform 900003 900004 ''s'' (JString (ascii ''https://tiktok.com/x'')) (JString (ascii ''views'')) BrowserOk]"]
    circuit_breaker_latches [of default_config 3 "new_provider ''zefoy'' 30000" "[1, 2, 3]" "[]"]
  by (simp add: default_config_def new_provider_def)

section \<open>Properties of the task stores\<close>

lemma completeTask_fields:
  "taskHistory (completeTask taskId r s) = slice_last 1000 (taskHistory s @ [r])"
  "activeTasks (completeTask taskId r s) = (activeTasks s)(taskId := None)"
  "heap (completeTask taskId r s) = heap s"
  "providers (completeTask taskId r s) = providers s"
  "timers (completeTask taskId r s) = timers s"
  "allocated (completeTask taskId r s) = allocated s"
  by (simp_all add: completeTask_def slice_last_def Let_def)

lemma update_task_fields:
  "heap (update_task r f s) = (heap s)(r := f (heap s r))"
  "activeTasks (update_task r f s) = activeTasks s"
  "taskHistory (update_task r f s) = taskHistory s"
  "providers (update_task r f s) = providers s"
  "timers (update_task r f s) = timers s"
  "allocated (update_task r f s) = allocated s"
  by (simp_all add: update_task_def)

lemma slice_last_snoc:
  "0 < n \<Longrightarrow> slice_last n (slice_last n xs @ [x]) = slice_last n (xs @ [x])"
  by (cases "length xs \<le> n") (simp_all add: slice_last_def Suc_diff_le)

lemma slice_last_short: "length xs \<le> n \<Longrightarrow> slice_last n xs = xs"
  by (simp add: slice_last_def)

lemma length_slice_last: "length (slice_last n xs) = min n (length xs)"
  by (simp add: slice_last_def)

lemma completeTasks_snoc:
  "completeTasks (xs @ [(taskId, r)]) s = completeTask taskId r (completeTasks xs s)"
  by (simp add: completeTasks_def)

lemma completeTasks_history:
  "length (taskHistory s) \<le> 1000 \<Longrightarrow>
   taskHistory (completeTasks xs s) = slice_last 1000 (taskHistory s @ map snd xs)"
proof (induction xs rule: rev_induct)
  case Nil
  then show ?case by (simp add: completeTasks_def slice_last_short)
next
  case (snoc x xs)
  obtain taskId r where x: "x = (taskId, r)" by (cases x)
  have "taskHistory (completeTasks (xs @ [x]) s)
      = slice_last 1000 (slice_last 1000 (taskHistory s @ map snd xs) @ [r])"
    using snoc by (simp add: x completeTasks_snoc completeTask_fields)
  also have "\<dots> = slice_last 1000 ((taskHistory s @ map snd xs) @ [r])"
    by (rule slice_last_snoc) simp
  finally show ?case by (simp add: x)
qed

section \<open>The sample runs, evaluated\<close>

lemma validate_example_url: "validateVideoUrl example_url"
  by (simp add: validateVideoUrl_def example_url_def tiktokUrlPattern_test_def
      tiktokUrlPattern_heads_def matches_literal_def dot_plus_def ascii_def canonicalize_def
      lineTerminator_def)

lemma views_is_an_action: "List.member getAvailableActions (default_actionType views)"
  by (simp add: getAvailableActions_def default_actionType_def views_def ascii_def)

lemma findAvailableProvider_single:
  "providers s = [(k, p)] \<Longrightarrow>
   findAvailableProvider now s = (if fst (checkAvailability now p) then Some (k, p) else None)"
  by (simp add: findAvailableProvider_def array_sort_def)

lemma performAction_start_example:
  "performAction_start default_config 100000 ''t1'' example_url views no_options new_service =
     (Awaiting example_call,
      new_service\<lparr> heap := (\<lambda>r. blank_task)(0 := example_task\<lparr> provider := Some ''zefoy'', status := Running \<rparr>),
                   allocated := 1, activeTasks := [''t1'' \<mapsto> 0] \<rparr>)"
proof -
  have d: "default_actionType views = views"
    by (simp add: default_actionType_def views_def)
  have f: "fst (checkAvailability 100000 (new_provider ''zefoy'' 30000))"
    by (simp add: checkAvailability_fst new_provider_def)
  have n: "providerName (new_provider ''zefoy'' 30000) = ''zefoy''"
    by (simp add: new_provider_def)
  show ?thesis
    using views_is_an_action
    by (simp add: performAction_start_def validate_example_url d Let_def
        findAvailableProvider_single [where k = "''zefoy''" and p = "new_provider ''zefoy'' 30000"]
        f n update_task_def new_service_def example_task_def example_call_def
        maxAttempts_or_default_def no_options_def default_config_def)
qed

lemmas service_defs =
  performAction_def performAction_resume_def executeAction_def zefoy_performAction_def
  fire_timer_def retryTask_start_def retryTask_resume_def cancelTask_def completeTask_def
  update_task_def update_provider_def updateStats_def checkAvailability_def slice_last_def
  empty_result_def

lemma example_first_failure:
  "performAction default_config 100000 ''t1'' ''s1'' example_url views no_options
     (BrowserThrew m) new_service =
   (empty_result\<lparr> res_error := Some (Thrown m), res_taskId := Some ''t1'',
      res_status := Some Retrying, res_attempts := Some 1, res_maxAttempts := Some 3,
      res_timestamp := Some 100000 \<rparr>,
    new_service\<lparr>
      providers := [(''zefoy'', (new_provider ''zefoy'' 30000)\<lparr> lastActionTime := 100000,
                       actionCount := 1, errorCount := 1 \<rparr>)],
      heap := (\<lambda>r. blank_task)(0 := example_task\<lparr> provider := Some ''zefoy'',
                 status := Retrying, error := Some (Thrown m), attempts := 1 \<rparr>),
      allocated := 1, activeTasks := [''t1'' \<mapsto> 0], timers := [''t1''] \<rparr>)"
  by (simp add: performAction_def performAction_start_example)
     (simp add: service_defs Let_def example_call_def example_task_def new_service_def
        new_provider_def default_config_def validate_example_url)

lemma failing_submit_state:
  "activeTasks (snd (failing_submit m)) = [''t1'' \<mapsto> 0]"
  "taskHistory (snd (failing_submit m)) = []"
  "timers (snd (failing_submit m)) = [''t1'']"
  "heap (snd (failing_submit m)) 0 =
     example_task\<lparr> provider := Some ''zefoy'', status := Retrying, error := Some (Thrown m),
       attempts := 1 \<rparr>"
  "map_of (providers (snd (failing_submit m))) ''zefoy'' =
     Some ((new_provider ''zefoy'' 30000)\<lparr> lastActionTime := 100000, actionCount := 1,
             errorCount := 1 \<rparr>)"
  by (simp_all add: failing_submit_def example_first_failure)
     (simp_all add: new_service_def)


lemma failing_retry_state:
  "status (heap (failing_retry m later m') 0) = Failed"
  "attempts (heap (failing_retry m later m') 0) = 2"
  "maxAttempts (heap (failing_retry m later m') 0) = 3"
  "timers (failing_retry m later m') = []"
  "taskHistory (failing_retry m later m') = [0]"
  "activeTasks (failing_retry m later m') ''t1'' = None"
  by (simp_all add: failing_retry_def failing_submit_def example_first_failure)
     (auto simp add: service_defs Let_def example_task_def new_service_def
        new_provider_def default_config_def validate_example_url views_def example_url_def)

section \<open>Properties of \<open>cancelTask\<close>\<close>

lemma slice_last_snoc_last: "0 < n \<Longrightarrow> last (slice_last n (xs @ [x])) = x"
  by (simp add: slice_last_def last_drop)

lemma slice_last_snoc_nonempty: "0 < n \<Longrightarrow> slice_last n (xs @ [x]) \<noteq> []"
  by (simp add: slice_last_def)

lemma cancelTask_active:
  assumes "activeTasks s taskId = Some r"
  shows "fst (cancelTask now taskId s) = True"
    and "heap (snd (cancelTask now taskId s))
           = (heap s)(r := (heap s r)\<lparr> status := Cancelled, cancelledAt := Some now \<rparr>)"
    and "activeTasks (snd (cancelTask now taskId s)) = (activeTasks s)(taskId := None)"
    and "taskHistory (snd (cancelTask now taskId s)) = slice_last 1000 (taskHistory s @ [r])"
    and "providers (snd (cancelTask now taskId s)) = providers s"
  using assms
  by (simp_all add: cancelTask_def Let_def completeTask_fields update_task_fields)

lemma cancelTask_absent:
  "activeTasks s taskId = None \<Longrightarrow> cancelTask now taskId s = (False, s)"
  by (simp add: cancelTask_def)

section \<open>The retry protocol\<close>

text \<open>
  Whatever \<open>maxAttempts\<close> is, a retry that fails ends the task: it is \<open>failed\<close>, it has
  left the active store for the history, and no timer has been added.
\<close>

lemma retryTask_resume_failure:
  assumes "\<not> success res"
  shows "status (heap (retryTask_resume now pc res s) (pc_task pc)) = Failed"
    and "attempts (heap (retryTask_resume now pc res s) (pc_task pc))
           = attempts (heap s (pc_task pc)) + 1"
    and "timers (retryTask_resume now pc res s) = timers s"
    and "activeTasks (retryTask_resume now pc res s) (pc_taskId pc) = None"
    and "taskHistory (retryTask_resume now pc res s)
           = slice_last 1000 (taskHistory s @ [pc_task pc])"
  using assms
  by (simp_all add: retryTask_resume_def Let_def completeTask_fields update_task_fields)

text \<open>
  C1, at a task of \<open>maxAttempts\<close> 3 whose provider fails at every attempt. The submit
  reports \<open>retrying\<close> with \<open>attempts\<close> 1 of 3 and schedules one retry. When that timer
  fires and the provider fails again, the task is \<open>failed\<close> with \<open>attempts\<close> 2, it is in
  the history, and no timer is pending: \<open>retryTask\<close> never schedules a further retry, so
  the task was \<open>retrying\<close> once, not twice, and its counter stops at 2, not at 3.
\<close>

theorem retry_happens_once:
  "res_status (fst (failing_submit m)) = Some Retrying \<and>
   res_attempts (fst (failing_submit m)) = Some 1 \<and>
   res_maxAttempts (fst (failing_submit m)) = Some 3 \<and>
   status (heap (snd (failing_submit m)) 0) = Retrying \<and>
   timers (snd (failing_submit m)) = [''t1''] \<and>
   status (heap (failing_retry m later m') 0) = Failed \<and>
   attempts (heap (failing_retry m later m') 0) = 2 \<and>
   maxAttempts (heap (failing_retry m later m') 0) = 3 \<and>
   timers (failing_retry m later m') = [] \<and>
   taskHistory (failing_retry m later m') = [0] \<and>
   activeTasks (failing_retry m later m') ''t1'' = None"
  by (simp add: failing_retry_state failing_submit_state)
     (simp add: failing_submit_def example_first_failure empty_result_def)



section \<open>Reachable states have the one provider\<close>

lemma executeAction_registered:
  "map_of (providers s) (pc_provider pc) = Some p \<Longrightarrow>
   executeAction cfg now finished sessionId pc outcome s =
     (fst (zefoy_performAction cfg now finished sessionId (pc_videoUrl pc) (pc_actionType pc)
             outcome p),
      s\<lparr> providers := update_provider (pc_provider pc)
            (snd (zefoy_performAction cfg now finished sessionId (pc_videoUrl pc)
                    (pc_actionType pc) outcome p)) (providers s) \<rparr>)"
  by (simp add: executeAction_def split_beta)

lemma providers_kept:
  "providers (snd (performAction_start cfg now taskId url kind opts s)) = providers s"
  "providers (snd (performAction_resume now pc res s)) = providers s"
  "providers (snd (retryTask_start taskId s)) = providers s"
  "providers (retryTask_resume now pc res s) = providers s"
  "providers (snd (cancelTask now taskId s)) = providers s"
  by (simp_all add: performAction_start_def performAction_resume_def retryTask_start_def
      retryTask_resume_def cancelTask_def Let_def completeTask_fields update_task_fields
      split: option.splits prod.splits)

lemma providers_keys_executeAction:
  "map fst (providers (snd (executeAction cfg now finished sessionId pc outcome s)))
     = map fst (providers s)"
  by (simp add: executeAction_def update_provider_def split_beta comp_def
      split: option.splits)

lemma providers_keys_resetProviders:
  "map fst (providers (resetProviders s)) = map fst (providers s)"
  by (simp add: resetProviders_def comp_def split_beta)

lemma reachable_one_provider: "reachable s \<Longrightarrow> map fst (providers s) = [''zefoy'']"
proof (induction rule: reachable.induct)
  case constructed
  show ?case by (simp add: new_service_def)
next
  case (timer_fired s taskId rest)
  then show ?case by (simp add: providers_kept)
qed (simp_all add: providers_kept providers_keys_executeAction providers_keys_resetProviders)






section \<open>The retry callback\<close>




section \<open>Provider selection\<close>




















text \<open>
  With error counts 1 and 0 the provider with 0 is returned in either order of
  registration.
\<close>

lemma fewer_errors_win_example:
  "map_option fst (findAvailableProvider 100000 (new_service\<lparr> providers :=
      [(''zefoy'', (new_provider ''zefoy'' 30000)\<lparr> errorCount := 1 \<rparr>),
       (''freer'', new_provider ''freer'' 25000)] \<rparr>)) = Some ''freer'' \<and>
   map_option fst (findAvailableProvider 100000 (new_service\<lparr> providers :=
      [(''freer'', new_provider ''freer'' 25000),
       (''zefoy'', (new_provider ''zefoy'' 30000)\<lparr> errorCount := 1 \<rparr>)] \<rparr>)) = Some ''freer''"
  by (simp add: findAvailableProvider_def new_service_def new_provider_def
      checkAvailability_def array_sort_def compareProviders_def getStats_def Let_def)

text \<open>
  A state the service is never in: two available providers with equal error counts and
  different idle times. There the comparison of the code, which subtracts the idle times
  in the same order as the error counts, puts the provider idle for the shorter time
  first, where the specification's order puts the one idle longest.
\<close>

lemma equal_errors_tie_break:
  "map_option fst (findAvailableProvider 100000 (new_service\<lparr> providers := two_providers \<rparr>))
     = Some ''freer'' \<and>
   map_option fst (selectProvider_spec 100000 (new_service\<lparr> providers := two_providers \<rparr>))
     = Some ''zefoy'' \<and>
   \<not> reachable (new_service\<lparr> providers := two_providers \<rparr>)"
proof -
  have "\<not> reachable (new_service\<lparr> providers := two_providers \<rparr>)"
    using reachable_one_provider [of "new_service\<lparr> providers := two_providers \<rparr>"]
    by (auto simp add: two_providers_def)
  then show ?thesis
    by (simp add: findAvailableProvider_def selectProvider_spec_def two_providers_def
        new_service_def new_provider_def checkAvailability_def array_sort_def
        compareProviders_def compareProviders_spec_def getStats_def Let_def)
qed

section \<open>Cancellation\<close>

text \<open>
  C7. For a task id the active store holds, \<open>cancelTask\<close> returns true, sets the task's
  status to \<open>cancelled\<close> and its \<open>cancelledAt\<close> to the time of the call, removes the id
  from the active store and appends the task to the history; a second \<open>cancelTask\<close> for
  the same id then returns false. For a task id the active store does not hold it
  returns false and changes nothing.
\<close>

theorem cancelTask_true_then_false:
  "(activeTasks s taskId = Some r \<longrightarrow>
      fst (cancelTask now taskId s) = True \<and>
      status (heap (snd (cancelTask now taskId s)) r) = Cancelled \<and>
      cancelledAt (heap (snd (cancelTask now taskId s)) r) = Some now \<and>
      activeTasks (snd (cancelTask now taskId s)) = (activeTasks s)(taskId := None) \<and>
      taskHistory (snd (cancelTask now taskId s)) = slice_last 1000 (taskHistory s @ [r]) \<and>
      taskHistory (snd (cancelTask now taskId s)) \<noteq> [] \<and>
      last (taskHistory (snd (cancelTask now taskId s))) = r \<and>
      fst (cancelTask later taskId (snd (cancelTask now taskId s))) = False) \<and>
   (activeTasks s taskId = None \<longrightarrow> cancelTask now taskId s = (False, s))"
proof -
  have "fst (cancelTask later taskId (snd (cancelTask now taskId s))) = False"
    if "activeTasks s taskId = Some r"
  proof -
    have "activeTasks (snd (cancelTask now taskId s)) taskId = None"
      by (simp add: cancelTask_active(3) [OF that])
    then show ?thesis by (simp add: cancelTask_absent)
  qed
  then show ?thesis
    by (simp add: cancelTask_active cancelTask_absent slice_last_snoc_last
        slice_last_snoc_nonempty)
qed

theorem cancelTask_true_then_false_witness:
  "fst (cancelTask 101000 ''t1'' (snd (failing_submit ''boom''))) = True \<and>
   status (heap (snd (cancelTask 101000 ''t1'' (snd (failing_submit ''boom'')))) 0) = Cancelled \<and>
   cancelledAt (heap (snd (cancelTask 101000 ''t1'' (snd (failing_submit ''boom'')))) 0)
     = Some 101000 \<and>
   taskHistory (snd (cancelTask 101000 ''t1'' (snd (failing_submit ''boom'')))) = [0] \<and>
   fst (cancelTask 102000 ''t1'' (snd (cancelTask 101000 ''t1'' (snd (failing_submit ''boom'')))))
     = False \<and>
   cancelTask 101000 ''t2'' (snd (failing_submit ''boom'')) = (False, snd (failing_submit ''boom''))"
proof -
  let ?s = "snd (failing_submit ''boom'')"
  have a: "activeTasks ?s ''t1'' = Some 0" and b: "activeTasks ?s ''t2'' = None"
    and h: "slice_last 1000 (taskHistory ?s @ [0]) = [0]"
    by (simp_all add: failing_submit_state slice_last_def)
  from cancelTask_true_then_false
         [where s = ?s and taskId = "''t1''" and r = 0 and now = 101000 and later = 102000] a
  have 1: "fst (cancelTask 101000 ''t1'' ?s) = True \<and>
           status (heap (snd (cancelTask 101000 ''t1'' ?s)) 0) = Cancelled \<and>
           cancelledAt (heap (snd (cancelTask 101000 ''t1'' ?s)) 0) = Some 101000 \<and>
           taskHistory (snd (cancelTask 101000 ''t1'' ?s)) = [0] \<and>
           fst (cancelTask 102000 ''t1'' (snd (cancelTask 101000 ''t1'' ?s))) = False"
    unfolding h by simp
  from cancelTask_true_then_false [where s = ?s and taskId = "''t2''" and now = 101000] b
  have 2: "cancelTask 101000 ''t2'' ?s = (False, ?s)"
    by simp
  from 1 2 show ?thesis by blast
qed

text \<open>
  C3, at a submit that is cancelled while its provider call is in flight. If the
  provider then succeeds, the resumed \<open>performAction\<close> pushes the task a second time: the
  history holds the same task object twice, now with status \<open>completed\<close> on top of its
  \<open>cancelledAt\<close>. If the provider fails instead, the task sits in the history with the
  non-terminal status \<open>retrying\<close>.
\<close>

theorem cancel_in_flight_duplicates_history:
  "taskHistory (cancelled_while_running BrowserOk) = [0, 0] \<and>
   activeTasks (cancelled_while_running BrowserOk) ''t1'' = None \<and>
   status (heap (cancelled_while_running BrowserOk) 0) = Completed \<and>
   cancelledAt (heap (cancelled_while_running BrowserOk) 0) = Some 100500 \<and>
   taskHistory (cancelled_while_running (BrowserThrew m)) = [0] \<and>
   activeTasks (cancelled_while_running (BrowserThrew m)) ''t1'' = None \<and>
   status (heap (cancelled_while_running (BrowserThrew m)) 0) = Retrying"
  by (simp add: cancelled_while_running_def performAction_cancelled_in_flight_def
        performAction_start_example)
     (simp add: service_defs Let_def example_call_def example_task_def new_service_def
        new_provider_def default_config_def validate_example_url)

section \<open>The history after a cancellation in flight\<close>

lemma performAction_start_accepts:
  assumes "providers s = [(k, p)]" and "fst (checkAvailability now p)"
    and "validateVideoUrl url" and "List.member getAvailableActions (default_actionType kind)"
  shows "performAction_start cfg now taskId url kind opts s =
     (Awaiting \<lparr> pc_taskId = taskId, pc_task = allocated s, pc_provider = k,
                 pc_videoUrl = url, pc_actionType = default_actionType kind,
                 pc_options = opts \<rparr>,
      s\<lparr> heap := (heap s)(allocated s :=
             \<lparr> task_id = taskId, videoUrl = url, actionType = default_actionType kind,
               options = opts, status = Running, createdAt = now, attempts = 0,
               maxAttempts = maxAttempts_or_default cfg opts,
               provider = Some (providerName p), error = None, completedAt = None,
               cancelledAt = None, result = None \<rparr>),
         allocated := Suc (allocated s),
         activeTasks := (activeTasks s)(taskId \<mapsto> allocated s) \<rparr>)"
  using assms
  by (simp add: performAction_start_def findAvailableProvider_def array_sort_def Let_def
      update_task_def)

lemma zefoy_performAction_ok:
  assumes "fst (checkAvailability now p)" and "validateVideoUrl url"
  shows "success (fst (zefoy_performAction cfg now finished sessionId url kind BrowserOk p))"
    and "snd (zefoy_performAction cfg now finished sessionId url kind BrowserOk p)
           = updateStats cfg finished True p"
  using assms by (simp_all add: zefoy_performAction_def empty_result_def)

lemma performAction_resume_success:
  "success res \<Longrightarrow>
   performAction_resume now pc res s =
     (res,
      s\<lparr> heap := (heap s)(pc_task pc :=
             (heap s (pc_task pc))\<lparr> status := Completed, completedAt := Some now,
               result := Some res \<rparr>),
         activeTasks := (activeTasks s)(pc_taskId pc := None),
         taskHistory := slice_last 1000 (taskHistory s @ [pc_task pc]) \<rparr>)"
  by (simp add: performAction_resume_def Let_def completeTask_def update_task_def slice_last_def)

lemma cancelTask_state:
  "activeTasks s taskId = Some r \<Longrightarrow>
   cancelTask now taskId s =
     (True,
      s\<lparr> heap := (heap s)(r := (heap s r)\<lparr> status := Cancelled, cancelledAt := Some now \<rparr>),
         activeTasks := (activeTasks s)(taskId := None),
         taskHistory := slice_last 1000 (taskHistory s @ [r]) \<rparr>)"
  by (simp add: cancelTask_def Let_def completeTask_def update_task_def slice_last_def)

lemma performAction_succeeds:
  assumes "providers s = [(k, p)]" and "fst (checkAvailability now p)"
    and "validateVideoUrl url" and "List.member getAvailableActions (default_actionType kind)"
  shows "providers (snd (performAction cfg now taskId sessionId url kind opts BrowserOk s))
           = [(k, updateStats cfg now True p)]"
    and "allocated (snd (performAction cfg now taskId sessionId url kind opts BrowserOk s))
           = Suc (allocated s)"
    and "taskHistory (snd (performAction cfg now taskId sessionId url kind opts BrowserOk s))
           = slice_last 1000 (taskHistory s @ [allocated s])"
    and "status (heap (snd (performAction cfg now taskId sessionId url kind opts BrowserOk s))
           (allocated s)) = Completed"
    and "r \<noteq> allocated s \<Longrightarrow>
         heap (snd (performAction cfg now taskId sessionId url kind opts BrowserOk s)) r = heap s r"
proof -
  note ok = zefoy_performAction_ok [OF assms(2,3), where cfg = cfg and finished = now
      and sessionId = sessionId and kind = "default_actionType kind"]
  have run: "snd (performAction cfg now taskId sessionId url kind opts BrowserOk s) =
      snd (performAction_resume now
        \<lparr> pc_taskId = taskId, pc_task = allocated s, pc_provider = k,
          pc_videoUrl = url, pc_actionType = default_actionType kind, pc_options = opts \<rparr>
        (fst (zefoy_performAction cfg now now sessionId url (default_actionType kind) BrowserOk p))
        (s\<lparr> heap := (heap s)(allocated s :=
             \<lparr> task_id = taskId, videoUrl = url, actionType = default_actionType kind,
               options = opts, status = Running, createdAt = now, attempts = 0,
               maxAttempts = maxAttempts_or_default cfg opts,
               provider = Some (providerName p), error = None, completedAt = None,
               cancelledAt = None, result = None \<rparr>),
           allocated := Suc (allocated s),
           activeTasks := (activeTasks s)(taskId \<mapsto> allocated s),
           providers := update_provider k (updateStats cfg now True p) (providers s) \<rparr>))"
    by (simp add: performAction_def performAction_start_accepts [OF assms]
        executeAction_registered assms(1) ok(2))
  show "providers (snd (performAction cfg now taskId sessionId url kind opts BrowserOk s))
           = [(k, updateStats cfg now True p)]"
    and "allocated (snd (performAction cfg now taskId sessionId url kind opts BrowserOk s))
           = Suc (allocated s)"
    and "taskHistory (snd (performAction cfg now taskId sessionId url kind opts BrowserOk s))
           = slice_last 1000 (taskHistory s @ [allocated s])"
    and "status (heap (snd (performAction cfg now taskId sessionId url kind opts BrowserOk s))
           (allocated s)) = Completed"
    and "r \<noteq> allocated s \<Longrightarrow>
         heap (snd (performAction cfg now taskId sessionId url kind opts BrowserOk s)) r = heap s r"
    unfolding run performAction_resume_success [OF ok(1)]
    by (simp_all add: update_provider_def assms(1))
qed

lemma cancelled_in_flight_succeeds:
  assumes "providers s = [(k, p)]" and "fst (checkAvailability now p)"
    and "validateVideoUrl url" and "List.member getAvailableActions (default_actionType kind)"
  shows "taskHistory (snd (performAction_cancelled_in_flight cfg now taskId sessionId url kind
            opts BrowserOk cancel_time finished s))
           = slice_last 1000 (slice_last 1000 (taskHistory s @ [allocated s]) @ [allocated s])"
    and "allocated (snd (performAction_cancelled_in_flight cfg now taskId sessionId url kind
            opts BrowserOk cancel_time finished s)) = Suc (allocated s)"
    and "status (heap (snd (performAction_cancelled_in_flight cfg now taskId sessionId url kind
            opts BrowserOk cancel_time finished s)) (allocated s)) = Completed"
    and "r \<noteq> allocated s \<Longrightarrow>
         heap (snd (performAction_cancelled_in_flight cfg now taskId sessionId url kind
            opts BrowserOk cancel_time finished s)) r = heap s r"
proof -
  note ok = zefoy_performAction_ok [OF assms(2,3), where cfg = cfg and finished = finished
      and sessionId = sessionId and kind = "default_actionType kind"]
  let ?s1 = "s\<lparr> heap := (heap s)(allocated s :=
             \<lparr> task_id = taskId, videoUrl = url, actionType = default_actionType kind,
               options = opts, status = Running, createdAt = now, attempts = 0,
               maxAttempts = maxAttempts_or_default cfg opts,
               provider = Some (providerName p), error = None, completedAt = None,
               cancelledAt = None, result = None \<rparr>),
           allocated := Suc (allocated s),
           activeTasks := (activeTasks s)(taskId \<mapsto> allocated s) \<rparr>"
  have c: "activeTasks ?s1 taskId = Some (allocated s)" by simp
  have run: "snd (performAction_cancelled_in_flight cfg now taskId sessionId url kind
            opts BrowserOk cancel_time finished s) =
      snd (performAction_resume finished
        \<lparr> pc_taskId = taskId, pc_task = allocated s, pc_provider = k,
          pc_videoUrl = url, pc_actionType = default_actionType kind, pc_options = opts \<rparr>
        (fst (zefoy_performAction cfg now finished sessionId url (default_actionType kind)
                BrowserOk p))
        ((snd (cancelTask cancel_time taskId ?s1))
           \<lparr> providers := update_provider k (updateStats cfg finished True p) (providers s) \<rparr>))"
    by (simp add: performAction_cancelled_in_flight_def performAction_start_accepts [OF assms]
        cancelTask_state [OF c] executeAction_registered assms(1) ok(2) split_beta)
  show "taskHistory (snd (performAction_cancelled_in_flight cfg now taskId sessionId url kind
            opts BrowserOk cancel_time finished s))
           = slice_last 1000 (slice_last 1000 (taskHistory s @ [allocated s]) @ [allocated s])"
    and "allocated (snd (performAction_cancelled_in_flight cfg now taskId sessionId url kind
            opts BrowserOk cancel_time finished s)) = Suc (allocated s)"
    and "status (heap (snd (performAction_cancelled_in_flight cfg now taskId sessionId url kind
            opts BrowserOk cancel_time finished s)) (allocated s)) = Completed"
    and "r \<noteq> allocated s \<Longrightarrow>
         heap (snd (performAction_cancelled_in_flight cfg now taskId sessionId url kind
            opts BrowserOk cancel_time finished s)) r = heap s r"
    unfolding run performAction_resume_success [OF ok(1)] cancelTask_state [OF c]
    by simp_all
qed

lemma completed_submits_state:
  "providers (completed_submits n) =
     [(''zefoy'', (new_provider ''zefoy'' 30000)\<lparr> lastActionTime := 100000 * int n,
                    actionCount := int n \<rparr>)] \<and>
   allocated (completed_submits n) = n \<and>
   taskHistory (completed_submits n) = slice_last 1000 [0..<n] \<and>
   (\<forall>r<n. status (heap (completed_submits n) r) = Completed)"
proof (induction n)
  case 0
  show ?case by (simp add: new_service_def new_provider_def slice_last_def)
next
  case (Suc n)
  let ?s = "completed_submits n"
  let ?p = "(new_provider ''zefoy'' 30000)\<lparr> lastActionTime := 100000 * int n,
              actionCount := int n \<rparr>"
  let ?now = "100000 * (int n + 1)"
  from Suc have ps: "providers ?s = [(''zefoy'', ?p)]" and al: "allocated ?s = n"
    and th: "taskHistory ?s = slice_last 1000 [0..<n]"
    and st: "\<And>r. r < n \<Longrightarrow> status (heap ?s r) = Completed"
    by simp_all
  have av: "fst (checkAvailability ?now ?p)"
    by (simp add: checkAvailability_fst new_provider_def)
  note step = performAction_succeeds [OF ps av validate_example_url views_is_an_action,
      where cfg = default_config and taskId = "task_name n" and sessionId = "task_name n"
        and opts = no_options]
  have 1: "providers (completed_submits (Suc n)) =
     [(''zefoy'', (new_provider ''zefoy'' 30000)\<lparr> lastActionTime := 100000 * int (Suc n),
                    actionCount := int (Suc n) \<rparr>)]"
    unfolding completed_submits.simps step(1)
    by (simp add: updateStats_def new_provider_def Let_def)
  have 2: "allocated (completed_submits (Suc n)) = Suc n"
    unfolding completed_submits.simps step(2) al ..
  have 3: "taskHistory (completed_submits (Suc n)) = slice_last 1000 [0..<Suc n]"
    unfolding completed_submits.simps step(3) al th
    by (simp add: slice_last_snoc)
  have 4: "status (heap (completed_submits (Suc n)) r) = Completed" if "r < Suc n" for r
  proof (cases "r = n")
    case True
    then show ?thesis unfolding completed_submits.simps using step(4) by (simp only: al)
  next
    case False
    with that have "r < n" by simp
    moreover from False have "heap (completed_submits (Suc n)) r = heap ?s r"
      unfolding completed_submits.simps using step(5) [of r] by (simp only: al) simp
    ultimately show ?thesis by (simp add: st)
  qed
  from 1 2 3 4 show ?case by blast
qed

lemma history_after_cancel_in_flight:
  assumes "1000 \<le> n"
  shows "slice_last 1000 (slice_last 1000 (slice_last 1000 [0..<n] @ [n]) @ [n])
           = [n - 998..<Suc n] @ [n]"
proof -
  from assms have e: "Suc (n - 1000) = n - 999" "Suc (n - 999) = n - 998"
    by arith+
  have a: "slice_last 1000 [0..<n] @ [n] = [n - 1000..<Suc n]"
    using assms by (simp add: slice_last_def drop_upt)
  have b: "slice_last 1000 [n - 1000..<Suc n] = [n - 999..<Suc n]"
    using assms by (simp add: slice_last_def drop_upt e)
  have c: "slice_last 1000 ([n - 999..<Suc n] @ [n]) = [n - 998..<Suc n] @ [n]"
    using assms by (simp add: slice_last_def drop_upt e)
  show ?thesis by (simp only: a b c)
qed

lemma cancelled_after_state:
  assumes "1000 \<le> n"
  shows "taskHistory (cancelled_after n) = [n - 998..<Suc n] @ [n]"
    and "allocated (cancelled_after n) = Suc n"
    and "r \<le> n \<Longrightarrow> status (heap (cancelled_after n) r) = Completed"
proof -
  let ?s = "completed_submits n"
  let ?p = "(new_provider ''zefoy'' 30000)\<lparr> lastActionTime := 100000 * int n,
              actionCount := int n \<rparr>"
  let ?now = "100000 * (int n + 1)"
  from completed_submits_state [of n]
  have ps: "providers ?s = [(''zefoy'', ?p)]" and al: "allocated ?s = n"
    and th: "taskHistory ?s = slice_last 1000 [0..<n]"
    and st: "\<And>r. r < n \<Longrightarrow> status (heap ?s r) = Completed"
    by simp_all
  have av: "fst (checkAvailability ?now ?p)"
    by (simp add: checkAvailability_fst new_provider_def)
  note step = cancelled_in_flight_succeeds [OF ps av validate_example_url views_is_an_action,
      where cfg = default_config and taskId = "task_name n" and sessionId = "task_name n"
        and opts = no_options and cancel_time = "?now + 500" and finished = "?now + 1000"]
  show "taskHistory (cancelled_after n) = [n - 998..<Suc n] @ [n]"
    unfolding cancelled_after_def step(1) al th
    by (rule history_after_cancel_in_flight [OF assms])
  show "allocated (cancelled_after n) = Suc n"
    unfolding cancelled_after_def step(2) al ..
  show "status (heap (cancelled_after n) r) = Completed" if "r \<le> n"
  proof (cases "r = n")
    case True
    then show ?thesis unfolding cancelled_after_def using step(3) by (simp only: al)
  next
    case False
    with that have "r < n" by simp
    moreover from False have "heap (cancelled_after n) r = heap ?s r"
      unfolding cancelled_after_def using step(4) [of r] by (simp only: al) simp
    ultimately show ?thesis by (simp add: st)
  qed
qed

text \<open>
  C5, at 1000 submits that complete one after the other and a 1001st that is cancelled
  while its provider call is in flight and then succeeds. All 1001 tasks have reached a
  terminal state. The history has 1000 entries, but the last task is in it twice (pushed
  by \<open>cancelTask\<close> and again by the resumed \<open>performAction\<close>), and the second push has
  evicted task 1, one of the 1000 most recent: the history holds 999 of them, not 1000.
\<close>

theorem history_loses_recent_task:
  "taskHistory (cancelled_after 1000) = [2..<1001] @ [1000] \<and>
   length (taskHistory (cancelled_after 1000)) = 1000 \<and>
   allocated (cancelled_after 1000) = 1001 \<and>
   status (heap (cancelled_after 1000) 1) = Completed \<and>
   status (heap (cancelled_after 1000) 1000) = Completed \<and>
   \<not> List.member (taskHistory (cancelled_after 1000)) 1 \<and>
   \<not> distinct (taskHistory (cancelled_after 1000))"
proof -
  have h: "taskHistory (cancelled_after 1000) = [2..<1001] @ [1000]"
    using cancelled_after_state(1) [of 1000] by (simp del: upt_rec_numeral)
  have "length ([2..<1001] @ [1000::nat]) = 1000"
    by (simp del: upt_rec_numeral)
  moreover have "\<not> List.member ([2..<1001] @ [1000::nat]) 1"
    by (simp del: upt_rec_numeral)
  moreover have "\<not> distinct ([2..<1001] @ [1000::nat])"
    by (simp del: upt_rec_numeral)
  ultimately show ?thesis
    using cancelled_after_state(2) [of 1000] cancelled_after_state(3) [of 1000 1]
      cancelled_after_state(3) [of 1000 1000]
    by (simp only: h) (simp del: upt_rec_numeral)
qed

section \<open>Validation and task creation\<close>

lemma performAction_start_invalid_url:
  "\<not> validateVideoUrl url \<Longrightarrow>
   performAction_start cfg now taskId url kind opts s =
     (Returned (empty_result\<lparr> res_error := Some InvalidTikTokVideoURL,
                  res_timestamp := Some now \<rparr>), s)"
  by (simp add: performAction_start_def empty_result_def)

lemma performAction_start_invalid_action:
  "validateVideoUrl url \<Longrightarrow> \<not> List.member getAvailableActions (default_actionType kind) \<Longrightarrow>
   performAction_start cfg now taskId url kind opts s =
     (Returned (empty_result\<lparr> res_error := Some (InvalidActionType (default_actionType kind)),
                  res_timestamp := Some now \<rparr>), s)"
  by (simp add: performAction_start_def empty_result_def)

lemma invalid_examples:
  "\<not> validateVideoUrl (JString [])"
  "\<not> validateVideoUrl JNull"
  "\<not> validateVideoUrl JUndefined"
  "\<not> validateVideoUrl (JNumber n)"
  "\<not> validateVideoUrl (JBoolean b)"
  "\<not> validateVideoUrl JObject"
  "\<not> validateVideoUrl (JString (ascii ''ftp://www.tiktok.com/@u/video/123''))"
  "\<not> validateVideoUrl (JString (ascii ''https://youtube.com/watch?v=123''))"
  "\<not> validateVideoUrl (JString (ascii ''not-a-url''))"
  by (simp_all add: validateVideoUrl_def tiktokUrlPattern_test_def tiktokUrlPattern_heads_def
      matches_literal_def dot_plus_def ascii_def canonicalize_def lineTerminator_def)

text \<open>
  C6. A submit whose target fails \<open>validateVideoUrl\<close>, or whose action kind is not one of
  \<open>getAvailableActions\<close>, returns a failure result at once and leaves the whole service as
  it was: no task object, no entry in the active store or the history, no provider
  touched; the result does not depend on the providers. The empty string, \<open>null\<close>,
  \<open>undefined\<close>, numbers, booleans, objects, a target with another scheme and a target on
  another domain all fail \<open>validateVideoUrl\<close>. (The action kind is the one the body of
  \<open>performAction\<close> sees: an argument that is \<open>undefined\<close> has become \<open>'views'\<close>.)
\<close>

theorem invalid_submit_rejected:
  "(\<not> validateVideoUrl url \<longrightarrow>
      performAction_start cfg now taskId url kind opts s =
        (Returned (empty_result\<lparr> res_error := Some InvalidTikTokVideoURL,
                     res_timestamp := Some now \<rparr>), s) \<and>
      performAction cfg now taskId sessionId url kind opts outcome s =
        (empty_result\<lparr> res_error := Some InvalidTikTokVideoURL, res_timestamp := Some now \<rparr>, s)) \<and>
   (validateVideoUrl url \<and> \<not> List.member getAvailableActions (default_actionType kind) \<longrightarrow>
      performAction_start cfg now taskId url kind opts s =
        (Returned (empty_result\<lparr> res_error := Some (InvalidActionType (default_actionType kind)),
                     res_timestamp := Some now \<rparr>), s) \<and>
      performAction cfg now taskId sessionId url kind opts outcome s =
        (empty_result\<lparr> res_error := Some (InvalidActionType (default_actionType kind)),
           res_timestamp := Some now \<rparr>, s)) \<and>
   success empty_result = False \<and>
   \<not> validateVideoUrl (JString []) \<and> \<not> validateVideoUrl JNull \<and>
   \<not> validateVideoUrl JUndefined \<and> \<not> validateVideoUrl (JNumber n) \<and>
   \<not> validateVideoUrl (JBoolean b) \<and> \<not> validateVideoUrl JObject \<and>
   \<not> validateVideoUrl (JString (ascii ''ftp://www.tiktok.com/@u/video/123'')) \<and>
   \<not> validateVideoUrl (JString (ascii ''https://youtube.com/watch?v=123''))"
  by (simp add: performAction_def performAction_start_invalid_url
      performAction_start_invalid_action invalid_examples)
     (simp add: empty_result_def)

theorem invalid_submit_rejected_witness:
  "performAction_start default_config 100000 ''t1''
     (JString (ascii ''https://youtube.com/watch?v=123'')) views no_options new_service
     = (Returned (empty_result\<lparr> res_error := Some InvalidTikTokVideoURL,
                    res_timestamp := Some 100000 \<rparr>), new_service) \<and>
   performAction_start default_config 100000 ''t1'' example_url
     (JString (ascii ''dislikes'')) no_options new_service
     = (Returned (empty_result\<lparr> res_error := Some (InvalidActionType (JString (ascii ''dislikes''))),
                    res_timestamp := Some 100000 \<rparr>), new_service)"
proof -
  have k: "default_actionType (JString (ascii ''dislikes'')) = JString (ascii ''dislikes'')"
    by (simp add: default_actionType_def)
  have n: "\<not> List.member getAvailableActions (JString (ascii ''dislikes''))"
    by (simp add: getAvailableActions_def ascii_def)
  from invalid_submit_rejected
         [where url = "JString (ascii ''https://youtube.com/watch?v=123'')" and n = 0 and b = True]
  have 1: "performAction_start default_config 100000 ''t1''
             (JString (ascii ''https://youtube.com/watch?v=123'')) views no_options new_service
           = (Returned (empty_result\<lparr> res_error := Some InvalidTikTokVideoURL,
                          res_timestamp := Some 100000 \<rparr>), new_service)"
    by simp
  from invalid_submit_rejected
         [where url = example_url and kind = "JString (ascii ''dislikes'')" and n = 0 and b = True]
    validate_example_url n
  have 2: "performAction_start default_config 100000 ''t1'' example_url
             (JString (ascii ''dislikes'')) no_options new_service
           = (Returned (empty_result\<lparr> res_error := Some (InvalidActionType (JString (ascii ''dislikes''))),
                          res_timestamp := Some 100000 \<rparr>), new_service)"
    unfolding k by simp
  from 1 2 show ?thesis by blast
qed

lemma performAction_start_creates:
  assumes "validateVideoUrl url" "List.member getAvailableActions (default_actionType kind)"
  shows "maxAttempts (heap (snd (performAction_start cfg now taskId url kind opts s)) (allocated s))
           = maxAttempts_or_default cfg opts"
    and "attempts (heap (snd (performAction_start cfg now taskId url kind opts s)) (allocated s)) = 0"
    and "task_id (heap (snd (performAction_start cfg now taskId url kind opts s)) (allocated s)) = taskId"
  using assms
  by (simp_all add: performAction_start_def Let_def update_task_fields completeTask_fields
      split: option.splits prod.splits)

lemma maxAttempts_from_env_nonzero: "maxAttempts_or_default (config_from_env e1 e2) opts \<noteq> 0"
  by (simp add: maxAttempts_or_default_def config_from_env_def or_default_def
      split: override.splits option.splits)

text \<open>
  C10. The task a valid submit creates has \<open>maxAttempts\<close> equal to
  \<open>options.maxAttempts || config.tiktok.maxRetries\<close>: an override that is 0, \<open>null\<close> or
  absent gives the configured default, an override that is a number other than 0 is
  taken as it is (every positive one, in particular), and under a configuration read
  from the environment the result is never 0.
\<close>

theorem falsy_maxAttempts_falls_back:
  "(validateVideoUrl url \<and> List.member getAvailableActions (default_actionType kind) \<longrightarrow>
      maxAttempts (heap (snd (performAction_start cfg now taskId url kind opts s)) (allocated s))
        = maxAttempts_or_default cfg opts \<and>
      task_id (heap (snd (performAction_start cfg now taskId url kind opts s)) (allocated s))
        = taskId) \<and>
   (opt_maxAttempts opts = Number 0 \<or> opt_maxAttempts opts = Null \<or>
    opt_maxAttempts opts = Undefined \<longrightarrow> maxAttempts_or_default cfg opts = maxRetries cfg) \<and>
   (opt_maxAttempts opts = Number n \<and> n \<noteq> 0 \<longrightarrow> maxAttempts_or_default cfg opts = n) \<and>
   maxAttempts_or_default (config_from_env e1 e2) opts \<noteq> 0"
  using maxAttempts_from_env_nonzero [of e1 e2 opts]
  by (auto simp add: performAction_start_creates maxAttempts_or_default_def)

theorem falsy_maxAttempts_falls_back_witness:
  "maxAttempts (heap (snd (performAction_start default_config 100000 ''t1'' example_url views
       \<lparr> opt_maxAttempts = Number 0 \<rparr> new_service)) 0) = 3 \<and>
   maxAttempts (heap (snd (performAction_start default_config 100000 ''t1'' example_url views
       \<lparr> opt_maxAttempts = Null \<rparr> new_service)) 0) = 3 \<and>
   maxAttempts (heap (snd (performAction_start default_config 100000 ''t1'' example_url views
       \<lparr> opt_maxAttempts = Number 5 \<rparr> new_service)) 0) = 5"
proof -
  have z: "allocated new_service = 0" and d: "maxRetries default_config = 3"
    by (simp_all add: new_service_def default_config_def)
  note v = validate_example_url views_is_an_action
  from falsy_maxAttempts_falls_back
         [where url = example_url and kind = views and s = new_service and cfg = default_config
            and opts = "\<lparr> opt_maxAttempts = Number 0 \<rparr>" and n = 0] v
  have 1: "maxAttempts (heap (snd (performAction_start default_config 100000 ''t1'' example_url
             views \<lparr> opt_maxAttempts = Number 0 \<rparr> new_service)) 0) = 3"
    unfolding z d by simp
  from falsy_maxAttempts_falls_back
         [where url = example_url and kind = views and s = new_service and cfg = default_config
            and opts = "\<lparr> opt_maxAttempts = Null \<rparr>" and n = 0] v
  have 2: "maxAttempts (heap (snd (performAction_start default_config 100000 ''t1'' example_url
             views \<lparr> opt_maxAttempts = Null \<rparr> new_service)) 0) = 3"
    unfolding z d by simp
  from falsy_maxAttempts_falls_back
         [where url = example_url and kind = views and s = new_service and cfg = default_config
            and opts = "\<lparr> opt_maxAttempts = Number 5 \<rparr>" and n = 5] v
  have 3: "maxAttempts (heap (snd (performAction_start default_config 100000 ''t1'' example_url
             views \<lparr> opt_maxAttempts = Number 5 \<rparr> new_service)) 0) = 5"
    unfolding z d by simp
  from 1 2 3 show ?thesis by blast
qed

end
